theory Spec2Isabelle
  imports Main "HOL-Library.Sublist" "HOL-Library.Char_ord" "HOL-Library.List_Lexorder"
begin

section \<open>Go values the embedding needs\<close>

text \<open>
  A Go call either returns a value or panics with a message. An unrecovered panic
  unwinds through every caller.
\<close>

datatype 'a outcome = Return 'a | Panic string

text \<open>
  The process environment. \<open>os.Getenv\<close> returns the empty string for a variable
  that is not set, so an unset variable and one set to the empty string read alike.
\<close>

type_synonym environ = "string \<rightharpoonup> string"

definition Getenv :: "environ \<Rightarrow> string \<Rightarrow> string" where
  "Getenv e k = (case e k of None \<Rightarrow> [] | Some v \<Rightarrow> v)"

text \<open>\<open>strings.TrimPrefix(s, prefix)\<close>: \<open>s\<close> without the prefix when it has it, else \<open>s\<close>.\<close>

definition TrimPrefix :: "string \<Rightarrow> string \<Rightarrow> string" where
  "TrimPrefix s p = (if prefix p s then drop (length p) s else s)"

text \<open>\<open>strings.Split(s, sep)\<close> for a one-byte separator; \<open>Split "" sep\<close> is \<open>[""]\<close>.\<close>

fun Split :: "string \<Rightarrow> char \<Rightarrow> string list" where
  "Split [] sep = [[]]"
| "Split (c # cs) sep =
     (if c = sep then [] # Split cs sep
      else (case Split cs sep of [] \<Rightarrow> [[c]] | w # ws \<Rightarrow> (c # w) # ws))"

text \<open>\<open>strings.Join(elems, sep)\<close>.\<close>

fun Join_strings :: "string list \<Rightarrow> string \<Rightarrow> string" where
  "Join_strings [] sep = []"
| "Join_strings [e] sep = e"
| "Join_strings (e # es) sep = e @ sep @ Join_strings es sep"

subsection \<open>Decimal numbers\<close>

definition is_digit :: "char \<Rightarrow> bool" where
  "is_digit c = (c \<in> set ''0123456789'')"

definition digit_val :: "char \<Rightarrow> int" where
  "digit_val c = int (length (takeWhile (\<lambda>d. d \<noteq> c) ''0123456789''))"

definition decimal :: "string \<Rightarrow> int" where
  "decimal ds = foldl (\<lambda>n c. 10 * n + digit_val c) 0 ds"

definition maxInt64 :: int where
  "maxInt64 = 9223372036854775807"

text \<open>
  \<open>strconv.ParseInt(s, 10, 64)\<close>: the value and whether the call succeeded. On a
  syntax error the value is 0; on a range error it is the nearest 64-bit bound.
\<close>

definition ParseInt :: "string \<Rightarrow> int \<times> bool" where
  "ParseInt s =
     (let neg = (s \<noteq> [] \<and> hd s = CHR ''-'');
          ds = (if s \<noteq> [] \<and> (hd s = CHR ''+'' \<or> hd s = CHR ''-'') then tl s else s)
      in if ds = [] \<or> \<not> list_all is_digit ds then (0, False)
         else if neg then
           (if decimal ds > maxInt64 + 1 then (- maxInt64 - 1, False) else (- decimal ds, True))
         else
           (if decimal ds > maxInt64 then (maxInt64, False) else (decimal ds, True)))"

section \<open>The version library\<close>

text \<open>
  Modelled from the spec: the version library that \<open>main.go\<close> imports
  (\<open>github.com/hashicorp/go-version\<close>: \<open>NewVersion\<close>, \<open>LessThan\<close>, \<open>Equal\<close>,
  \<open>GreaterThan\<close>) is not under \<open>src/\<close>. The spec describes a toolchain version as a
  semantic version parsed from the reported string and compared with the thresholds.
  Where the spec leaves the library open the model follows the library: one or more
  numeric segments, padded with zeros to at least three; an optional prerelease tag
  (with or without a leading dash); optional build metadata after a plus sign.
\<close>

record Version =
  segments :: "int list"
  pre :: string
  metadata :: string

definition is_idchar :: "char \<Rightarrow> bool" where
  "is_idchar c =
     (is_digit c \<or> c \<in> set ''abcdefghijklmnopqrstuvwxyz'' \<or>
      c \<in> set ''ABCDEFGHIJKLMNOPQRSTUVWXYZ'' \<or> c = CHR ''-'' \<or> c = CHR ''~'')"

text \<open>Dot-separated identifiers, each non-empty and made of identifier characters.\<close>

definition is_ids :: "string \<Rightarrow> bool" where
  "is_ids t = list_all (\<lambda>p. p \<noteq> [] \<and> list_all is_idchar p) (Split t CHR ''.'')"

text \<open>
  The part of a version string after the numeric segments: the prerelease tag and the
  metadata, or \<open>None\<close> when it is malformed. A dash directly before the tag is not part
  of the tag, unless nothing else can be the tag.
\<close>

definition parse_suffix :: "string \<Rightarrow> (string \<times> string) option" where
  "parse_suffix r =
     (let p = takeWhile (\<lambda>c. c \<noteq> CHR ''+'') r;
          m = dropWhile (\<lambda>c. c \<noteq> CHR ''+'') r
      in if m \<noteq> [] \<and> \<not> is_ids (tl m) then None
         else if p = [] then Some ([], tl m)
         else if hd p = CHR ''-'' \<and> is_ids (tl p) then Some (tl p, tl m)
         else if \<not> is_digit (hd p) \<and> is_ids p then Some (p, tl m)
         else None)"

definition NewVersion :: "string \<Rightarrow> Version option" where
  "NewVersion v =
     (let s = (if v \<noteq> [] \<and> hd v = CHR ''v'' then tl v else v);
          core = takeWhile (\<lambda>c. is_digit c \<or> c = CHR ''.'') s;
          rest = dropWhile (\<lambda>c. is_digit c \<or> c = CHR ''.'') s;
          segs = Split core CHR ''.''
      in if \<not> list_all (\<lambda>g. g \<noteq> []) segs then None
         else if \<not> list_all (\<lambda>g. snd (ParseInt g)) segs then None
         else (case parse_suffix rest of
                 None \<Rightarrow> None
               | Some (p, m) \<Rightarrow>
                   Some \<lparr>segments = map (\<lambda>g. fst (ParseInt g)) segs @
                                      replicate (3 - length segs) 0,
                         pre = p, metadata = m\<rparr>))"

text \<open>
  Comparison of two prerelease tags, identifier by identifier: a numeric identifier is
  below an alphanumeric one, two numeric ones compare as numbers, two alphanumeric ones
  as byte strings, and a missing identifier is decided by the other one.
\<close>

definition comparePart :: "string \<Rightarrow> string \<Rightarrow> int" where
  "comparePart preSelf preOther =
     (let (selfInt, selfNumeric) = ParseInt preSelf;
          (otherInt, otherNumeric) = ParseInt preOther
      in if preSelf = preOther then 0
         else if preSelf = [] then (if otherNumeric then - 1 else 1)
         else if preOther = [] then (if selfNumeric then 1 else - 1)
         else if selfNumeric \<and> \<not> otherNumeric then - 1
         else if \<not> selfNumeric \<and> otherNumeric then 1
         else if \<not> selfNumeric \<and> \<not> otherNumeric \<and> preOther < preSelf then 1
         else if otherInt < selfInt then 1
         else - 1)"

fun compareParts :: "string list \<Rightarrow> string list \<Rightarrow> int" where
  "compareParts [] [] = 0"
| "compareParts (a # as) [] =
     (if comparePart a [] \<noteq> 0 then comparePart a [] else compareParts as [])"
| "compareParts [] (b # bs) =
     (if comparePart [] b \<noteq> 0 then comparePart [] b else compareParts [] bs)"
| "compareParts (a # as) (b # bs) =
     (if comparePart a b \<noteq> 0 then comparePart a b else compareParts as bs)"

definition comparePrereleases :: "string \<Rightarrow> string \<Rightarrow> int" where
  "comparePrereleases v other =
     (if v = other then 0 else compareParts (Split v CHR ''.'') (Split other CHR ''.''))"

definition allZero :: "int list \<Rightarrow> bool" where
  "allZero segs = list_all (\<lambda>s. s = 0) segs"

text \<open>
  The segment loop of \<open>Compare\<close>, for segment lists that are not the same list: the
  first differing segment decides; when one list ends first, the other is above it
  unless all its remaining segments are zero.
\<close>

fun compareSegments :: "int list \<Rightarrow> int list \<Rightarrow> int" where
  "compareSegments [] [] = 0"
| "compareSegments [] (r # rs) = (if allZero (r # rs) then 0 else - 1)"
| "compareSegments (l # ls) [] = (if allZero (l # ls) then 0 else 1)"
| "compareSegments (l # ls) (r # rs) =
     (if l = r then compareSegments ls rs else if l < r then - 1 else 1)"

text \<open>
  \<open>Compare\<close> returns -1, 0 or 1. Equal printed forms compare equal. With the same
  segment list a version without prerelease tag is above one with a tag, and two tags
  are compared. With different segment lists, also of different length, the segment
  loop decides and the prerelease tags are not looked at.
\<close>

definition Compare :: "Version \<Rightarrow> Version \<Rightarrow> int" where
  "Compare v other =
     (if v = other then 0
      else if segments v = segments other then
        (if pre v = [] \<and> pre other = [] then 0
         else if pre v = [] then 1
         else if pre other = [] then - 1
         else comparePrereleases (pre v) (pre other))
      else compareSegments (segments v) (segments other))"

definition LessThan :: "Version \<Rightarrow> Version \<Rightarrow> bool" where
  "LessThan v o' = (Compare v o' < 0)"

definition Equal :: "Version \<Rightarrow> Version \<Rightarrow> bool" where
  "Equal v o' = (Compare v o' = 0)"

definition GreaterThan :: "Version \<Rightarrow> Version \<Rightarrow> bool" where
  "GreaterThan v o' = (Compare v o' > 0)"

definition GreaterThanOrEqual :: "Version \<Rightarrow> Version \<Rightarrow> bool" where
  "GreaterThanOrEqual v o' = (Compare v o' \<ge> 0)"

section \<open>Path joining\<close>

text \<open>
  \<open>filepath.Clean\<close> on a slash-separated path: empty and \<open>.\<close> elements are dropped,
  a \<open>..\<close> element removes the element before it (at the root it is dropped, at
  the start of a relative path it is kept), and the empty result is \<open>.\<close>.
\<close>

definition clean_step :: "bool \<Rightarrow> string list \<Rightarrow> string \<Rightarrow> string list" where
  "clean_step rooted out' c =
     (if c = [] \<or> c = ''.'' then out'
      else if c = ''..'' then
        (if out' \<noteq> [] \<and> last out' \<noteq> ''..'' then butlast out'
         else if rooted then out'
         else out' @ [''..''])
      else out' @ [c])"

definition Clean :: "string \<Rightarrow> string" where
  "Clean path =
     (if path = [] then ''.''
      else
        (let rooted = (hd path = CHR ''/'');
             elems = foldl (clean_step rooted) [] (Split path CHR ''/'');
             s = (if rooted then ''/'' else []) @ Join_strings elems ''/''
         in if s = [] then ''.'' else s))"

text \<open>
  \<open>filepath.Join\<close>: leading empty elements are skipped, the rest is joined with
  slashes and cleaned; with nothing but empty elements the result is empty.
\<close>

definition Join :: "string list \<Rightarrow> string" where
  "Join elem =
     (case dropWhile (\<lambda>e. e = []) elem of
        [] \<Rightarrow> []
      | es \<Rightarrow> Clean (Join_strings es ''/''))"

section \<open>The resolver of \<open>main.go\<close>\<close>

text \<open>
  A deferred call runs when its function returns or panics. \<open>recover()\<close> stops a
  panic only when a deferred function calls it directly. In \<open>defer recover()\<close> the
  deferred function is \<open>recover\<close> itself: nothing is recovered, and the panic goes
  on to the caller. In \<open>defer func() { recover() }()\<close> the panic stops and the
  function returns the zero value of its result type.
\<close>

datatype deferred = Defer_recover | Defer_func_recover

definition run_deferred :: "deferred \<Rightarrow> 'a \<Rightarrow> 'a outcome \<Rightarrow> 'a outcome" where
  "run_deferred d zero r =
     (case d of
        Defer_recover \<Rightarrow> r
      | Defer_func_recover \<Rightarrow> (case r of Return x \<Rightarrow> Return x | Panic m \<Rightarrow> Return zero))"

text \<open>
  \<open>goversion\<close>, given what the call \<open>gover.Version()\<close> does: it returns the
  version string of the installed toolchain, or panics.
\<close>

definition goversion :: "string outcome \<Rightarrow> string outcome" where
  "goversion gover_Version = run_deferred Defer_recover [] gover_Version"

text \<open>
  The three thresholds. The source parses them from the literals and drops the error
  result; the lemma \<open>thresholds_parse\<close> below shows that the parse gives these values.
\<close>

definition go150 :: Version where
  "go150 = \<lparr>segments = [1, 5, 0], pre = [], metadata = []\<rparr>"

definition go160 :: Version where
  "go160 = \<lparr>segments = [1, 6, 0], pre = [], metadata = []\<rparr>"

definition go173 :: Version where
  "go173 = \<lparr>segments = [1, 7, 3], pre = [], metadata = []\<rparr>"

definition checkVendoringSupport :: "string outcome \<Rightarrow> environ \<Rightarrow> bool outcome" where
  "checkVendoringSupport gover_Version env =
     (case goversion gover_Version of
        Panic m \<Rightarrow> Panic m
      | Return ver \<Rightarrow>
          if ver = [] then Return True
          else
            (case NewVersion (TrimPrefix ver ''go'') of
               None \<Rightarrow> Panic (''gover.Version() returned invalid semantic version: '' @ ver)
             | Some goVer \<Rightarrow>
                 if LessThan goVer go150 then Return False
                 else if (Equal goVer go150 \<or> GreaterThan goVer go150) \<and> LessThan goVer go160
                   then Return (Getenv env ''GO15VENDOREXPERIMENT'' = ''1'')
                 else if (Equal goVer go160 \<or> GreaterThan goVer go160) \<and> LessThan goVer go173
                   then Return (Getenv env ''GO15VENDOREXPERIMENT'' \<noteq> ''0'')
                 else Return True))"

text \<open>The two package variables that \<open>init\<close> sets.\<close>

record config =
  isVendoringSupported :: bool
  vendorFolder :: string

definition init :: "string outcome \<Rightarrow> environ \<Rightarrow> config outcome" where
  "init gover_Version env =
     (case checkVendoringSupport gover_Version env of
        Panic m \<Rightarrow> Panic m
      | Return b \<Rightarrow>
          Return \<lparr>isVendoringSupported = b,
                  vendorFolder =
                    (if b then ''vendor''
                     else if length (Getenv env ''GOM_VENDOR_NAME'') > 0
                       then Getenv env ''GOM_VENDOR_NAME''
                     else ''_vendor'')\<rparr>)"

definition vendorSrc :: "config \<Rightarrow> string \<Rightarrow> string" where
  "vendorSrc cfg vendor =
     (if isVendoringSupported cfg then vendor else Join [vendor, ''src''])"

section \<open>The dispatcher of \<open>main.go\<close>\<close>

text \<open>
  What \<open>main\<close> calls for the arguments that \<open>flag.Parse\<close> leaves (\<open>flag.Args()\<close>).
  The environment flags and the group list that \<open>main\<close> also sets are read by the
  tasks only and are left out; so is the call of \<open>handleSignal\<close>, which is not under
  \<open>src/\<close>.
\<close>

datatype action =
    Install "string list"
  | Run "string list"
  | Update
  | GenTravisYml
  | GenGomfile
  | GenGomfileLock
  | Usage

text \<open>\<open>flag.Arg(i)\<close>: the i-th remaining argument, or the empty string.\<close>

definition flag_Arg :: "string list \<Rightarrow> nat \<Rightarrow> string" where
  "flag_Arg args i = (if i < length args then args ! i else [])"

definition dispatch :: "string list \<Rightarrow> action" where
  "dispatch args =
     (let subArgs = drop 1 args; a = flag_Arg args 0
      in if a = ''install'' \<or> a = ''i'' then Install subArgs
         else if a = ''build'' \<or> a = ''b'' then Run ([''go'', ''build''] @ subArgs)
         else if a = ''test'' \<or> a = ''t'' then Run ([''go'', ''test''] @ subArgs)
         else if a = ''run'' \<or> a = ''r'' then Run ([''go'', ''run''] @ subArgs)
         else if a = ''doc'' \<or> a = ''d'' then Run ([''godoc''] @ subArgs)
         else if a = ''exec'' \<or> a = ''e'' then Run subArgs
         else if a \<in> set [''env'', ''tool'', ''fmt'', ''list'', ''vet'']
           then Run ([''go'', a] @ subArgs)
         else if a = ''update'' \<or> a = ''u'' then Update
         else if a = ''gen'' \<or> a = ''g'' then
           (if flag_Arg args 1 = ''travis-yml'' then GenTravisYml
            else if flag_Arg args 1 = ''gomfile'' then GenGomfile
            else Usage)
         else if a = ''lock'' \<or> a = ''l'' then GenGomfileLock
         else Usage)"

text \<open>
  How the process ends. \<open>usage\<close> prints the task list to standard output and calls
  \<open>os.Exit(1)\<close>. An error from a task is printed by \<open>fmt.Fprintln(os.Stderr, "gom: ", err)\<close>,
  which puts a space between its operands, before \<open>os.Exit(1)\<close>. A task may end the
  process itself, with a status of its own. A panic that nothing recovers ends the
  process in the Go runtime, which writes \<open>panic: \<close> and the value, then the goroutine
  traces, to standard error and exits with status 2.
\<close>

datatype ending =
    Finished
  | Usage_exit
  | Error_exit string
  | Task_exit int
  | Runtime_panic string

fun exit_status :: "ending \<Rightarrow> int" where
  "exit_status Finished = 0"
| "exit_status Usage_exit = 1"
| "exit_status (Error_exit e) = 1"
| "exit_status (Task_exit n) = n"
| "exit_status (Runtime_panic m) = 2"

text \<open>
  The first line that \<open>main.go\<close> or the runtime writes to standard error, when there
  is one.
\<close>

fun stderr_line :: "ending \<Rightarrow> string option" where
  "stderr_line Finished = None"
| "stderr_line Usage_exit = None"
| "stderr_line (Error_exit e) = Some (''gom: '' @ '' '' @ e)"
| "stderr_line (Task_exit n) = None"
| "stderr_line (Runtime_panic m) = Some (''panic: '' @ m)"

text \<open>
  The tasks \<open>install\<close>, \<open>run\<close>, \<open>update\<close>, \<open>genTravisYml\<close>, \<open>genGomfile\<close> and
  \<open>genGomfileLock\<close> are not under \<open>src/\<close> and are a parameter of \<open>main\<close>. What
  \<open>main\<close> sees of a task is that it returns a Go \<open>error\<close> (\<open>None\<close> for \<open>nil\<close>), or
  that it never returns because it has ended the process with some status. What a task
  does with a child process, and how the status of the child decides between the two,
  is not in the sources and is not modelled.
\<close>

datatype task_result = Returns "string option" | Exits int

type_synonym tasks = "action \<Rightarrow> task_result"

definition main :: "tasks \<Rightarrow> string list \<Rightarrow> ending" where
  "main task args =
     (if length args = 0 then Usage_exit
      else
        (case dispatch args of
           Usage \<Rightarrow> Usage_exit
         | a \<Rightarrow>
             (case task a of
                Returns None \<Rightarrow> Finished
              | Returns (Some err) \<Rightarrow> Error_exit err
              | Exits n \<Rightarrow> Task_exit n)))"

text \<open>The process: package initialisation runs \<open>init\<close>, then \<open>main\<close>.\<close>

definition gom :: "string outcome \<Rightarrow> environ \<Rightarrow> tasks \<Rightarrow> string list \<Rightarrow> ending" where
  "gom gover_Version env task args =
     (case init gover_Version env of
        Panic m \<Rightarrow> Runtime_panic m
      | Return cfg \<Rightarrow> main task args)"

text \<open>
  The spec's derived attribute \<open>sourceSubpath\<close>: \<open>vendorSrc\<close> applied to the vendor
  folder that \<open>init\<close> chose.
\<close>

definition sourceSubpath :: "config \<Rightarrow> string" where
  "sourceSubpath cfg = vendorSrc cfg (vendorFolder cfg)"

section \<open>Evaluation and order lemmas\<close>

lemmas parse_defs = NewVersion_def parse_suffix_def ParseInt_def is_digit_def is_idchar_def
  is_ids_def decimal_def digit_val_def maxInt64_def Let_def TrimPrefix_def

lemmas order_defs = LessThan_def GreaterThanOrEqual_def Equal_def GreaterThan_def Compare_def
  allZero_def go150_def go160_def go173_def

lemmas path_defs = Join_def Clean_def clean_step_def

lemma thresholds_parse:
  "NewVersion ''1.5.0'' = Some go150 \<and> NewVersion ''1.6.0'' = Some go160 \<and>
   NewVersion ''1.7.3'' = Some go173"
  by (simp add: parse_defs go150_def go160_def go173_def)

lemma NewVersion_empty: "NewVersion [] = None"
  by (simp add: NewVersion_def)

lemma parsed_nonempty: "NewVersion (TrimPrefix ver ''go'') = Some v \<Longrightarrow> ver \<noteq> []"
  by (auto simp: TrimPrefix_def NewVersion_empty)

lemma not_LessThan: "(Equal v t \<or> GreaterThan v t) = (\<not> LessThan v t)"
  by (auto simp: Equal_def GreaterThan_def LessThan_def)

lemma GreaterThanOrEqual_iff: "GreaterThanOrEqual v t = (\<not> LessThan v t)"
  by (auto simp: GreaterThanOrEqual_def LessThan_def)

lemma Getenv_eq_iff: "x \<noteq> [] \<Longrightarrow> (Getenv env k = x) = (env k = Some x)"
  by (auto simp: Getenv_def split: option.splits)

text \<open>The version bands, once the version string has parsed.\<close>

lemma checkVendoringSupport_parsed:
  assumes "NewVersion (TrimPrefix ver ''go'') = Some v"
  shows "checkVendoringSupport (Return ver) env =
     Return (if LessThan v go150 then False
             else if LessThan v go160 then Getenv env ''GO15VENDOREXPERIMENT'' = ''1''
             else if LessThan v go173 then Getenv env ''GO15VENDOREXPERIMENT'' \<noteq> ''0''
             else True)"
  using assms parsed_nonempty [OF assms]
  by (simp add: checkVendoringSupport_def goversion_def run_deferred_def not_LessThan)

subsection \<open>The segment loop\<close>

lemma compareSegments_refl: "compareSegments xs xs = 0"
  by (induction xs) simp_all







text \<open>
  Below a release: the same segment list with a prerelease tag, or a segment list that
  the segment loop puts below.
\<close>

lemma LessThan_release:
  assumes "pre t = []"
  shows "LessThan v t =
     ((segments v = segments t \<and> pre v \<noteq> []) \<or> compareSegments (segments v) (segments t) < 0)"
  using assms by (auto simp: LessThan_def Compare_def compareSegments_refl)

lemma below_150_below_160_segments:
  "compareSegments xs [1, 5, 0] < 0 \<Longrightarrow> compareSegments xs [1, 6, 0] < 0"
proof (cases xs)
  case Nil
  then show ?thesis by (simp add: allZero_def)
next
  case (Cons a as)
  assume lt: "compareSegments xs [1, 5, 0] < 0"
  show ?thesis
  proof (cases as)
    case Nil
    then show ?thesis
      using lt Cons by (auto simp: allZero_def split: if_splits)
  next
    case (Cons b bs)
    then show ?thesis
      using lt \<open>xs = a # as\<close> by (cases bs) (auto simp: allZero_def split: if_splits)
  qed
qed

lemma below_150_below_160: "LessThan v go150 \<Longrightarrow> LessThan v go160"
  using below_150_below_160_segments [of "segments v"]
  by (auto simp: LessThan_release go150_def go160_def)


subsection \<open>Parsed segments are not negative\<close>






subsection \<open>Monotone comparison with a release\<close>


text \<open>With no version string the resolver answers true, and the process goes on to \<open>main\<close>.\<close>

lemma empty_version_supported:
  "checkVendoringSupport (Return []) env = Return True \<and>
   gom (Return []) env task args = main task args"
  by (simp add: gom_def init_def checkVendoringSupport_def goversion_def run_deferred_def)

section \<open>The claims\<close>

text \<open>
  C1: for every toolchain version from 1.5.0 up to, but not including, 1.6.0,
  \<open>checkVendoringSupport\<close> returns true exactly when \<open>GO15VENDOREXPERIMENT\<close> is set to
  \<open>1\<close>; any other value, and the unset variable, give false.
\<close>

theorem opt_in_band:
  assumes "NewVersion (TrimPrefix ver ''go'') = Some v"
    and "GreaterThanOrEqual v go150"
    and "LessThan v go160"
  shows "checkVendoringSupport (Return ver) env =
           Return (env ''GO15VENDOREXPERIMENT'' = Some ''1'')"
  using assms(2,3)
  by (simp add: checkVendoringSupport_parsed [OF assms(1)] GreaterThanOrEqual_iff Getenv_eq_iff)

theorem opt_in_band_witness:
  "NewVersion (TrimPrefix ''go1.5.3'' ''go'') =
     Some \<lparr>segments = [1, 5, 3], pre = [], metadata = []\<rparr> \<and>
   GreaterThanOrEqual \<lparr>segments = [1, 5, 3], pre = [], metadata = []\<rparr> go150 \<and>
   LessThan \<lparr>segments = [1, 5, 3], pre = [], metadata = []\<rparr> go160 \<and>
   checkVendoringSupport (Return ''go1.5.3'') [''GO15VENDOREXPERIMENT'' \<mapsto> ''1''] = Return True \<and>
   checkVendoringSupport (Return ''go1.5.3'') [''GO15VENDOREXPERIMENT'' \<mapsto> ''true''] = Return False \<and>
   checkVendoringSupport (Return ''go1.5.3'') Map.empty = Return False"
proof -
  have p: "NewVersion (TrimPrefix ''go1.5.3'' ''go'') =
      Some \<lparr>segments = [1, 5, 3], pre = [], metadata = []\<rparr>"
    by (simp add: parse_defs)
  have g: "GreaterThanOrEqual \<lparr>segments = [1, 5, 3], pre = [], metadata = []\<rparr> go150"
    by (simp add: order_defs)
  have l: "LessThan \<lparr>segments = [1, 5, 3], pre = [], metadata = []\<rparr> go160"
    by (simp add: order_defs)
  show ?thesis
    using p g l
      opt_in_band [OF p g l, of "[''GO15VENDOREXPERIMENT'' \<mapsto> ''1'']"]
      opt_in_band [OF p g l, of "[''GO15VENDOREXPERIMENT'' \<mapsto> ''true'']"]
      opt_in_band [OF p g l, of Map.empty]
    by simp
qed

text \<open>
  C2: for every toolchain version from 1.6.0 on, \<open>checkVendoringSupport\<close> returns true,
  except that below 1.7.3 it returns false exactly when \<open>GO15VENDOREXPERIMENT\<close> is
  set to \<open>0\<close>; from 1.7.3 on it returns true whatever the environment holds.
\<close>

theorem opt_out_band:
  assumes "NewVersion (TrimPrefix ver ''go'') = Some v"
    and "GreaterThanOrEqual v go160"
  shows "checkVendoringSupport (Return ver) env =
           Return (\<not> (LessThan v go173 \<and> env ''GO15VENDOREXPERIMENT'' = Some ''0'')) \<and>
         (GreaterThanOrEqual v go173 \<longrightarrow> checkVendoringSupport (Return ver) env = Return True)"
  using assms(2) below_150_below_160 [of v]
  by (auto simp: checkVendoringSupport_parsed [OF assms(1)] GreaterThanOrEqual_iff Getenv_eq_iff)

theorem opt_out_band_witness:
  "NewVersion (TrimPrefix ''go1.6.2'' ''go'') =
     Some \<lparr>segments = [1, 6, 2], pre = [], metadata = []\<rparr> \<and>
   GreaterThanOrEqual \<lparr>segments = [1, 6, 2], pre = [], metadata = []\<rparr> go160 \<and>
   LessThan \<lparr>segments = [1, 6, 2], pre = [], metadata = []\<rparr> go173 \<and>
   checkVendoringSupport (Return ''go1.6.2'') [''GO15VENDOREXPERIMENT'' \<mapsto> ''0''] = Return False \<and>
   checkVendoringSupport (Return ''go1.6.2'') Map.empty = Return True \<and>
   NewVersion (TrimPrefix ''go1.9.0'' ''go'') =
     Some \<lparr>segments = [1, 9, 0], pre = [], metadata = []\<rparr> \<and>
   GreaterThanOrEqual \<lparr>segments = [1, 9, 0], pre = [], metadata = []\<rparr> go160 \<and>
   GreaterThanOrEqual \<lparr>segments = [1, 9, 0], pre = [], metadata = []\<rparr> go173 \<and>
   checkVendoringSupport (Return ''go1.9.0'') [''GO15VENDOREXPERIMENT'' \<mapsto> ''0''] = Return True"
proof -
  have p: "NewVersion (TrimPrefix ''go1.6.2'' ''go'') =
      Some \<lparr>segments = [1, 6, 2], pre = [], metadata = []\<rparr>"
    by (simp add: parse_defs)
  have g: "GreaterThanOrEqual \<lparr>segments = [1, 6, 2], pre = [], metadata = []\<rparr> go160"
    by (simp add: order_defs)
  have l: "LessThan \<lparr>segments = [1, 6, 2], pre = [], metadata = []\<rparr> go173"
    by (simp add: order_defs)
  have p': "NewVersion (TrimPrefix ''go1.9.0'' ''go'') =
      Some \<lparr>segments = [1, 9, 0], pre = [], metadata = []\<rparr>"
    by (simp add: parse_defs)
  have g': "GreaterThanOrEqual \<lparr>segments = [1, 9, 0], pre = [], metadata = []\<rparr> go160"
    by (simp add: order_defs)
  have h': "GreaterThanOrEqual \<lparr>segments = [1, 9, 0], pre = [], metadata = []\<rparr> go173"
    by (simp add: order_defs)
  show ?thesis
    using p g l p' g' h'
      opt_out_band [OF p g, of "[''GO15VENDOREXPERIMENT'' \<mapsto> ''0'']"]
      opt_out_band [OF p g, of Map.empty]
      opt_out_band [OF p' g', of "[''GO15VENDOREXPERIMENT'' \<mapsto> ''0'']"]
    by (simp add: GreaterThanOrEqual_iff)
qed

text \<open>
  C3: for every toolchain version below 1.5.0, such as \<open>1.4.2\<close>,
  \<open>checkVendoringSupport\<close> returns false, and with \<open>GOM_VENDOR_NAME\<close> unset the
  resolved source subpath is exactly \<open>_vendor/src\<close>.
\<close>

theorem below_150_unsupported:
  assumes "NewVersion (TrimPrefix ver ''go'') = Some v"
    and "LessThan v go150"
  shows "checkVendoringSupport (Return ver) env = Return False \<and>
         (env ''GOM_VENDOR_NAME'' = None \<longrightarrow>
            init (Return ver) env =
              Return \<lparr>isVendoringSupported = False, vendorFolder = ''_vendor''\<rparr> \<and>
            sourceSubpath \<lparr>isVendoringSupported = False, vendorFolder = ''_vendor''\<rparr> =
              ''_vendor/src'')"
proof -
  have r: "checkVendoringSupport (Return ver) env = Return False"
    using assms(2) by (simp add: checkVendoringSupport_parsed [OF assms(1)])
  have s: "sourceSubpath \<lparr>isVendoringSupported = False, vendorFolder = ''_vendor''\<rparr> =
      ''_vendor/src''"
    by (simp add: sourceSubpath_def vendorSrc_def path_defs)
  show ?thesis
    using r s by (simp add: init_def Getenv_def)
qed

theorem below_150_unsupported_witness:
  "NewVersion (TrimPrefix ''1.4.2'' ''go'') =
     Some \<lparr>segments = [1, 4, 2], pre = [], metadata = []\<rparr> \<and>
   LessThan \<lparr>segments = [1, 4, 2], pre = [], metadata = []\<rparr> go150 \<and>
   Map.empty ''GOM_VENDOR_NAME'' = (None :: string option) \<and>
   checkVendoringSupport (Return ''1.4.2'') Map.empty = Return False \<and>
   init (Return ''1.4.2'') Map.empty =
     Return \<lparr>isVendoringSupported = False, vendorFolder = ''_vendor''\<rparr> \<and>
   sourceSubpath \<lparr>isVendoringSupported = False, vendorFolder = ''_vendor''\<rparr> = ''_vendor/src''"
proof -
  have p: "NewVersion (TrimPrefix ''1.4.2'' ''go'') =
      Some \<lparr>segments = [1, 4, 2], pre = [], metadata = []\<rparr>"
    by (simp add: parse_defs)
  have l: "LessThan \<lparr>segments = [1, 4, 2], pre = [], metadata = []\<rparr> go150"
    by (simp add: order_defs)
  show ?thesis
    using p l below_150_unsupported [OF p l, of Map.empty] by simp
qed

text \<open>
  C4: when the version call fails in any way (toolchain absent, an empty string
  returned, or the call panicking), the resolver treats the version as unknown and
  \<open>checkVendoringSupport\<close> returns true without ending the process. The code does so
  for the empty string (\<open>empty_version_supported\<close>). A panic of the version call is
  not stopped by \<open>defer recover()\<close>: it leaves \<open>goversion\<close>, \<open>checkVendoringSupport\<close>
  and \<open>init\<close>, and the process ends in the runtime with status 2. With the deferred call
  written as a function that calls \<open>recover\<close>, the panic would stop there.
\<close>

theorem version_call_panic_not_recovered:
  "goversion (Panic m) = Panic m \<and>
   checkVendoringSupport (Panic m) env = Panic m \<and>
   gom (Panic m) env task args = Runtime_panic m \<and>
   exit_status (gom (Panic m) env task args) = 2 \<and>
   run_deferred Defer_func_recover [] (Panic m) = Return []"
  by (simp add: gom_def init_def checkVendoringSupport_def goversion_def run_deferred_def)

text \<open>
  C5, as amended: for every non-empty version string that \<open>NewVersion\<close> rejects after
  the prefix \<open>go\<close> has been trimmed, \<open>checkVendoringSupport\<close> panics with the message
  \<open>gover.Version() returned invalid semantic version: \<close> followed by the string as
  reported; nothing recovers the panic, so the process ends in the Go runtime, which
  writes the message after \<open>panic: \<close> to standard error and exits with status 2.
\<close>

theorem unparsable_version_panics:
  assumes "ver \<noteq> []"
    and "NewVersion (TrimPrefix ver ''go'') = None"
  shows "checkVendoringSupport (Return ver) env =
           Panic (''gover.Version() returned invalid semantic version: '' @ ver) \<and>
         gom (Return ver) env task args =
           Runtime_panic (''gover.Version() returned invalid semantic version: '' @ ver) \<and>
         exit_status (gom (Return ver) env task args) = 2 \<and>
         stderr_line (gom (Return ver) env task args) =
           Some (''panic: gover.Version() returned invalid semantic version: '' @ ver)"
  using assms
  by (simp add: gom_def init_def checkVendoringSupport_def goversion_def run_deferred_def)

theorem unparsable_version_panics_witness:
  "''gotip'' \<noteq> [] \<and> NewVersion (TrimPrefix ''gotip'' ''go'') = None \<and>
   checkVendoringSupport (Return ''gotip'') Map.empty =
     Panic ''gover.Version() returned invalid semantic version: gotip'' \<and>
   exit_status (gom (Return ''gotip'') Map.empty (\<lambda>a. Returns None) [''build'']) = 2 \<and>
   stderr_line (gom (Return ''gotip'') Map.empty (\<lambda>a. Returns None) [''build'']) =
     Some ''panic: gover.Version() returned invalid semantic version: gotip''"
proof -
  have n: "''gotip'' \<noteq> []"
    by simp
  have p: "NewVersion (TrimPrefix ''gotip'' ''go'') = None"
    by (simp add: parse_defs)
  show ?thesis
    using n p unparsable_version_panics [OF n p, of Map.empty "\<lambda>a. Returns None" "[''build'']"]
    by simp
qed

text \<open>
  C5 as stated fails: for the version string \<open>devel\<close>, which does not parse, the
  process ends with status 2, not 1, and the line on standard error starts with
  \<open>panic: \<close>, not with the name of the tool.
\<close>

theorem unparsable_version_exit_counterexample:
  "NewVersion (TrimPrefix ''devel'' ''go'') = None \<and>
   exit_status (gom (Return ''devel'') Map.empty (\<lambda>a. Returns None) [''build'']) = 2 \<and>
   exit_status (gom (Return ''devel'') Map.empty (\<lambda>a. Returns None) [''build'']) \<noteq> 1 \<and>
   stderr_line (gom (Return ''devel'') Map.empty (\<lambda>a. Returns None) [''build'']) =
     Some ''panic: gover.Version() returned invalid semantic version: devel'' \<and>
   \<not> prefix ''gom'' (the (stderr_line (gom (Return ''devel'') Map.empty (\<lambda>a. Returns None) [''build''])))"
  by (simp add: parse_defs gom_def init_def checkVendoringSupport_def goversion_def
      run_deferred_def)

text \<open>
  C6: the resolved source subpath is a function of the support flag and of
  \<open>GOM_VENDOR_NAME\<close> alone: two initialisations that agree on both resolve the same
  path. Without support and with the override \<open>libs\<close> the path is exactly
  \<open>libs/src\<close>; with support the override is ignored and the path is \<open>vendor\<close>, with
  no \<open>/src\<close> after it.
\<close>

theorem dependency_directory_resolution:
  assumes "init gover_Version env = Return cfg"
    and "init gover_Version' env' = Return cfg'"
  shows "(isVendoringSupported cfg = isVendoringSupported cfg' \<and>
          Getenv env ''GOM_VENDOR_NAME'' = Getenv env' ''GOM_VENDOR_NAME'' \<longrightarrow>
            sourceSubpath cfg = sourceSubpath cfg') \<and>
         (\<not> isVendoringSupported cfg \<and> env ''GOM_VENDOR_NAME'' = Some ''libs'' \<longrightarrow>
            sourceSubpath cfg = ''libs/src'') \<and>
         (isVendoringSupported cfg \<longrightarrow> sourceSubpath cfg = ''vendor'')"
proof -
  have shape: "vendorFolder c =
      (if isVendoringSupported c then ''vendor''
       else if length (Getenv e ''GOM_VENDOR_NAME'') > 0 then Getenv e ''GOM_VENDOR_NAME''
       else ''_vendor'')"
    if "init g e = Return c" for g e c
    using that
    by (cases "checkVendoringSupport g e") (auto simp: init_def)
  have libs: "Join [''libs'', ''src''] = ''libs/src''"
    by (simp add: path_defs)
  show ?thesis
    using shape [OF assms(1)] shape [OF assms(2)] libs
    by (auto simp: sourceSubpath_def vendorSrc_def Getenv_def)
qed

theorem dependency_directory_resolution_witness:
  "init (Return ''go1.4.2'') [''GOM_VENDOR_NAME'' \<mapsto> ''libs''] =
     Return \<lparr>isVendoringSupported = False, vendorFolder = ''libs''\<rparr> \<and>
   init (Return ''go1.5.1'') [''GOM_VENDOR_NAME'' \<mapsto> ''libs''] =
     Return \<lparr>isVendoringSupported = False, vendorFolder = ''libs''\<rparr> \<and>
   sourceSubpath \<lparr>isVendoringSupported = False, vendorFolder = ''libs''\<rparr> = ''libs/src'' \<and>
   init (Return ''go1.9.0'') [''GOM_VENDOR_NAME'' \<mapsto> ''libs''] =
     Return \<lparr>isVendoringSupported = True, vendorFolder = ''vendor''\<rparr> \<and>
   sourceSubpath \<lparr>isVendoringSupported = True, vendorFolder = ''vendor''\<rparr> = ''vendor''"
proof -
  have a: "init (Return ''go1.4.2'') [''GOM_VENDOR_NAME'' \<mapsto> ''libs''] =
      Return \<lparr>isVendoringSupported = False, vendorFolder = ''libs''\<rparr>"
    by (simp add: init_def checkVendoringSupport_def goversion_def run_deferred_def Getenv_def
        parse_defs order_defs)
  have b: "init (Return ''go1.5.1'') [''GOM_VENDOR_NAME'' \<mapsto> ''libs''] =
      Return \<lparr>isVendoringSupported = False, vendorFolder = ''libs''\<rparr>"
    by (simp add: init_def checkVendoringSupport_def goversion_def run_deferred_def Getenv_def
        parse_defs order_defs)
  have c: "init (Return ''go1.9.0'') [''GOM_VENDOR_NAME'' \<mapsto> ''libs''] =
      Return \<lparr>isVendoringSupported = True, vendorFolder = ''vendor''\<rparr>"
    by (simp add: init_def checkVendoringSupport_def goversion_def run_deferred_def Getenv_def
        parse_defs order_defs)
  show ?thesis
    using a b c dependency_directory_resolution [OF a b] dependency_directory_resolution [OF c c]
    by simp
qed

text \<open>
  C7: the invocation for the subcommand \<open>test\<close> with the user's arguments
  \<open>-run Foo\<close> is \<open>go test -run Foo\<close>: the toolchain first, the subcommand second,
  then the user's arguments, unchanged and in order; the same holds for any arguments.
\<close>

theorem test_invocation:
  "dispatch [''test'', ''-run'', ''Foo''] = Run [''go'', ''test'', ''-run'', ''Foo''] \<and>
   dispatch (''test'' # subArgs) = Run (''go'' # ''test'' # subArgs)"
  by (simp add: dispatch_def flag_Arg_def)




end
